theory Spec2Isabelle
  imports Main "HOL-Library.Word"
begin

section \<open>The buffer pool manager of \<open>src/buffer/buffer_pool_manager.cpp\<close>\<close>

text \<open>
  The six member functions of \<open>BufferPoolManager\<close> are embedded as functions on an explicit
  manager state. A call that blocks for ever on the latch returns \<open>None\<close>; a call that
  returns gives \<open>Some\<close> of its result and the state it leaves behind. The member names of
  the source end in an underscore (\<open>pin_count_\<close>, \<open>free_list_\<close>), which is not a legal
  name here, so the fields drop it; the parameter \<open>page_id\<close> of the source is written
  \<open>pid\<close> because \<open>page_id\<close> is the field of a frame. Frame ids index the frame array;
  an index outside the array would be undefined behaviour in the source, and
  \<open>reachable_wf\<close> below shows that no reachable state holds one.
\<close>

subsection \<open>Identifiers and page content\<close>

type_synonym page_id_t = int
type_synonym frame_id_t = nat
type_synonym page_data = "8 word list"

text \<open>
  Modelled from the spec: the constants \<open>PAGE_SIZE\<close> and \<open>INVALID_PAGE_ID\<close> live in a
  configuration header that is not part of the sources at hand. The spec fixes the page size
  as a constant shared with the disk backend (4096 bytes) and speaks of an invalid sentinel
  for the page id of an unoccupied frame.
\<close>

definition PAGE_SIZE :: nat where
  "PAGE_SIZE = 4096"

definition INVALID_PAGE_ID :: page_id_t where
  "INVALID_PAGE_ID = - 1"

definition zero_page :: page_data where
  "zero_page = replicate PAGE_SIZE 0"

subsection \<open>Frames\<close>

text \<open>
  Modelled from the spec: the class \<open>Page\<close> is declared in a header that is not part of the
  sources at hand. A frame is a fixed-size byte buffer with the resident page id, the pin
  count and the dirty flag; a fresh frame has a zeroed buffer, the invalid page id, pin count
  0 and is clean; \<open>ResetMemory\<close> zero-fills the buffer and touches nothing else. The pin
  count is an \<open>int\<close> in the source, 32 bits in two's complement: \<open>int32\<close> is the value
  such a variable holds after an arithmetic result is stored in it, so that incrementing
  \<open>2^31 - 1\<close> gives \<open>- 2^31\<close>.
\<close>

definition int32 :: "int \<Rightarrow> int" where
  "int32 x = (x + 2147483648) mod 4294967296 - 2147483648"

record Page =
  data :: page_data
  page_id :: page_id_t
  pin_count :: int
  is_dirty :: bool

definition new_Page :: Page where
  "new_Page = \<lparr>data = zero_page, page_id = INVALID_PAGE_ID, pin_count = 0, is_dirty = False\<rparr>"

definition ResetMemory :: "Page \<Rightarrow> Page" where
  "ResetMemory p = p\<lparr>data := zero_page\<rparr>"

definition GetPageId :: "Page \<Rightarrow> page_id_t" where
  "GetPageId p = page_id p"

definition GetPinCount :: "Page \<Rightarrow> int" where
  "GetPinCount p = pin_count p"

subsection \<open>The disk backend\<close>

text \<open>
  Modelled from the spec: the class \<open>DiskManager\<close> is not part of the sources at hand. The
  spec gives its contract: \<open>AllocatePage\<close> returns a fresh identifier, \<open>DeallocatePage\<close>
  releases one and cannot fail, \<open>ReadPage\<close> fills a buffer with the persisted content and
  \<open>WritePage\<close> persists a buffer under the given id. The model keeps the persisted content
  of every id (what a never-written id holds is whatever the initial store holds), a counter
  for fresh identifiers, and the sequence of calls made so far, so that the theorems can
  speak of which calls an operation performs and in which order.
\<close>

datatype disk_call =
    CallAllocate page_id_t
  | CallDeallocate page_id_t
  | CallRead page_id_t
  | CallWrite page_id_t page_data

record DiskManager =
  store :: "page_id_t \<Rightarrow> page_data"
  next_page_id :: page_id_t
  calls :: "disk_call list"

definition AllocatePage :: "DiskManager \<Rightarrow> page_id_t \<times> DiskManager" where
  "AllocatePage d =
     (next_page_id d,
      d\<lparr>next_page_id := next_page_id d + 1, calls := calls d @ [CallAllocate (next_page_id d)]\<rparr>)"

definition DeallocatePage :: "DiskManager \<Rightarrow> page_id_t \<Rightarrow> DiskManager" where
  "DeallocatePage d pid = d\<lparr>calls := calls d @ [CallDeallocate pid]\<rparr>"

definition ReadPage :: "DiskManager \<Rightarrow> page_id_t \<Rightarrow> page_data \<times> DiskManager" where
  "ReadPage d pid = (store d pid, d\<lparr>calls := calls d @ [CallRead pid]\<rparr>)"

definition WritePage :: "DiskManager \<Rightarrow> page_id_t \<Rightarrow> page_data \<Rightarrow> DiskManager" where
  "WritePage d pid buf = d\<lparr>store := (store d)(pid := buf), calls := calls d @ [CallWrite pid buf]\<rparr>"

subsection \<open>The clock replacer\<close>

text \<open>
  Modelled from the spec: the class \<open>ClockReplacer\<close> is not part of the sources at hand. The
  spec describes it as a circular order over the evictable frame ids, each with a recency
  bit. The list below is that circular order read from the clock hand. \<open>Unpin\<close> (the spec's
  Track) adds a frame with its bit set and does nothing to a tracked frame; \<open>Pin\<close> (the
  spec's Remove) drops a frame and does nothing to an untracked one; \<open>Victim\<close> walks the
  circle, clearing a set bit and moving on, and takes the first frame whose bit is clear.
\<close>

type_synonym ClockReplacer = "(frame_id_t \<times> bool) list"

definition tracked :: "ClockReplacer \<Rightarrow> frame_id_t set" where
  "tracked r = fst ` set r"

definition Pin :: "ClockReplacer \<Rightarrow> frame_id_t \<Rightarrow> ClockReplacer" where
  "Pin r f = filter (\<lambda>e. fst e \<noteq> f) r"

definition Unpin :: "ClockReplacer \<Rightarrow> frame_id_t \<Rightarrow> ClockReplacer" where
  "Unpin r f = (if f \<in> tracked r then r else r @ [(f, True)])"

function Victim :: "ClockReplacer \<Rightarrow> (frame_id_t \<times> ClockReplacer) option" where
  "Victim [] = None"
| "Victim ((f, b) # r) = (if b then Victim (r @ [(f, False)]) else Some (f, r))"
  by pat_completeness auto
termination
  by (relation "measure (\<lambda>r. length (filter snd r))") auto

subsection \<open>The manager state\<close>

record BufferPoolManager =
  pool_size :: nat
  pages :: "Page list"
  replacer :: ClockReplacer
  free_list :: "frame_id_t list"
  page_table :: "page_id_t \<rightharpoonup> frame_id_t"
  disk_manager :: DiskManager
  latch :: bool

text \<open>The constructor: every frame is fresh and on the free list, in index order.\<close>

definition BufferPoolManager_new :: "nat \<Rightarrow> DiskManager \<Rightarrow> BufferPoolManager" where
  "BufferPoolManager_new n d =
     \<lparr>pool_size = n, pages = replicate n new_Page, replacer = [], free_list = [0..<n],
      page_table = Map.empty, disk_manager = d, latch = False\<rparr>"

text \<open>
  \<open>latch_.lock()\<close> on a mutex that is held never returns (the mutex is not re-entrant and
  nobody is left to release it); \<open>latch_.unlock()\<close> releases it.
\<close>

definition lock :: "BufferPoolManager \<Rightarrow> BufferPoolManager option" where
  "lock s = (if latch s then None else Some (s\<lparr>latch := True\<rparr>))"

definition unlock :: "BufferPoolManager \<Rightarrow> BufferPoolManager" where
  "unlock s = s\<lparr>latch := False\<rparr>"

text \<open>\<open>pages_[f]\<close> updated in place by \<open>g\<close>.\<close>

definition upd_frame :: "frame_id_t \<Rightarrow> (Page \<Rightarrow> Page) \<Rightarrow> BufferPoolManager \<Rightarrow> BufferPoolManager" where
  "upd_frame f g s = s\<lparr>pages := (pages s)[f := g (pages s ! f)]\<rparr>"

text \<open>The four calls into the disk backend, threaded through the manager state.\<close>

definition disk_write :: "page_id_t \<Rightarrow> page_data \<Rightarrow> BufferPoolManager \<Rightarrow> BufferPoolManager" where
  "disk_write pid buf s = s\<lparr>disk_manager := WritePage (disk_manager s) pid buf\<rparr>"

definition disk_read_into :: "page_id_t \<Rightarrow> frame_id_t \<Rightarrow> BufferPoolManager \<Rightarrow> BufferPoolManager" where
  "disk_read_into pid f s =
     (let (buf, d) = ReadPage (disk_manager s) pid
      in upd_frame f (\<lambda>p. p\<lparr>data := buf\<rparr>) (s\<lparr>disk_manager := d\<rparr>))"

definition disk_deallocate :: "page_id_t \<Rightarrow> BufferPoolManager \<Rightarrow> BufferPoolManager" where
  "disk_deallocate pid s = s\<lparr>disk_manager := DeallocatePage (disk_manager s) pid\<rparr>"

definition table_erase :: "page_id_t \<Rightarrow> BufferPoolManager \<Rightarrow> BufferPoolManager" where
  "table_erase pid s = s\<lparr>page_table := (page_table s)(pid := None)\<rparr>"

definition table_bind :: "page_id_t \<Rightarrow> frame_id_t \<Rightarrow> BufferPoolManager \<Rightarrow> BufferPoolManager" where
  "table_bind pid f s = s\<lparr>page_table := (page_table s)(pid \<mapsto> f)\<rparr>"

definition replacer_Pin :: "frame_id_t \<Rightarrow> BufferPoolManager \<Rightarrow> BufferPoolManager" where
  "replacer_Pin f s = s\<lparr>replacer := Pin (replacer s) f\<rparr>"

definition replacer_Unpin :: "frame_id_t \<Rightarrow> BufferPoolManager \<Rightarrow> BufferPoolManager" where
  "replacer_Unpin f s = s\<lparr>replacer := Unpin (replacer s) f\<rparr>"

subsection \<open>FetchPageImpl\<close>

text \<open>
  The three paths of the miss and the hit, statement by statement. The result is the frame
  the returned pointer points to, or \<open>None\<close> for \<open>nullptr\<close>. The path on which the replacer
  has no victim returns without a call of \<open>unlock\<close>; the write-back of a dirty victim passes
  the requested \<open>pid\<close> to \<open>WritePage\<close>.
\<close>

definition FetchPage_hit :: "frame_id_t \<Rightarrow> BufferPoolManager \<Rightarrow> frame_id_t option \<times> BufferPoolManager" where
  "FetchPage_hit reqFrame s =
     (let s = replacer_Pin reqFrame s;
          s = upd_frame reqFrame (\<lambda>p. p\<lparr>pin_count := int32 (pin_count p + 1)\<rparr>) s;
          s = unlock s
      in (Some reqFrame, s))"

definition FetchPage_free :: "page_id_t \<Rightarrow> BufferPoolManager \<Rightarrow> frame_id_t option \<times> BufferPoolManager" where
  "FetchPage_free pid s =
     (let reqFrame = hd (free_list s);
          s = s\<lparr>free_list := tl (free_list s)\<rparr>;
          s = replacer_Pin reqFrame s;
          s = upd_frame reqFrame (\<lambda>p. p\<lparr>pin_count := int32 (pin_count p + 1)\<rparr>) s;
          s = upd_frame reqFrame ResetMemory s;
          s = disk_read_into pid reqFrame s;
          s = upd_frame reqFrame (\<lambda>p. p\<lparr>page_id := pid\<rparr>) s;
          s = upd_frame reqFrame (\<lambda>p. p\<lparr>is_dirty := False\<rparr>) s;
          s = table_bind pid reqFrame s;
          s = unlock s
      in (Some reqFrame, s))"

definition FetchPage_evict :: "page_id_t \<Rightarrow> BufferPoolManager \<Rightarrow> frame_id_t option \<times> BufferPoolManager" where
  "FetchPage_evict pid s =
     (case Victim (replacer s) of
        None \<Rightarrow> (None, s)
      | Some (reqFrame, r) \<Rightarrow>
          (let s = s\<lparr>replacer := r\<rparr>;
               replacerPage = GetPageId (pages s ! reqFrame);
               s = (if is_dirty (pages s ! reqFrame)
                    then upd_frame reqFrame (\<lambda>p. p\<lparr>is_dirty := False\<rparr>)
                           (disk_write pid (data (pages s ! reqFrame)) s)
                    else s);
               s = replacer_Pin reqFrame s;
               s = upd_frame reqFrame ResetMemory s;
               s = table_erase replacerPage s;
               s = disk_read_into pid reqFrame s;
               s = upd_frame reqFrame (\<lambda>p. p\<lparr>pin_count := int32 (pin_count p + 1)\<rparr>) s;
               s = upd_frame reqFrame (\<lambda>p. p\<lparr>page_id := pid\<rparr>) s;
               s = upd_frame reqFrame (\<lambda>p. p\<lparr>is_dirty := False\<rparr>) s;
               s = table_bind pid reqFrame s;
               s = unlock s
           in (Some reqFrame, s)))"

definition FetchPageImpl ::
  "BufferPoolManager \<Rightarrow> page_id_t \<Rightarrow> (frame_id_t option \<times> BufferPoolManager) option" where
  "FetchPageImpl s0 pid =
     (case lock s0 of
        None \<Rightarrow> None
      | Some s \<Rightarrow>
          (case page_table s pid of
             Some reqFrame \<Rightarrow> Some (FetchPage_hit reqFrame s)
           | None \<Rightarrow>
               if length (free_list s) \<noteq> 0 then Some (FetchPage_free pid s)
               else Some (FetchPage_evict pid s)))"

subsection \<open>UnpinPageImpl\<close>

text \<open>The branch taken for a resident page with a positive pin count.\<close>

definition UnpinPage_release :: "frame_id_t \<Rightarrow> bool \<Rightarrow> BufferPoolManager \<Rightarrow> BufferPoolManager" where
  "UnpinPage_release targetFrame dirty s =
     (let s = (if dirty then upd_frame targetFrame (\<lambda>p. p\<lparr>is_dirty := dirty\<rparr>) s else s);
          s = upd_frame targetFrame (\<lambda>p. p\<lparr>pin_count := int32 (pin_count p - 1)\<rparr>) s;
          s = (if GetPinCount (pages s ! targetFrame) = 0
               then replacer_Unpin targetFrame s else s);
          s = unlock s
      in s)"

definition UnpinPageImpl ::
  "BufferPoolManager \<Rightarrow> page_id_t \<Rightarrow> bool \<Rightarrow> (bool \<times> BufferPoolManager) option" where
  "UnpinPageImpl s0 pid dirty =
     (case lock s0 of
        None \<Rightarrow> None
      | Some s \<Rightarrow>
          (case page_table s pid of
             None \<Rightarrow> Some (True, unlock s)
           | Some targetFrame \<Rightarrow>
               if GetPinCount (pages s ! targetFrame) \<le> 0 then Some (False, unlock s)
               else Some (True, UnpinPage_release targetFrame dirty s)))"

subsection \<open>FlushPageImpl\<close>

text \<open>\<open>FlushPageImpl\<close> never touches the latch, so it always returns.\<close>

definition FlushPageImpl :: "BufferPoolManager \<Rightarrow> page_id_t \<Rightarrow> bool \<times> BufferPoolManager" where
  "FlushPageImpl s pid =
     (case page_table s pid of
        Some targetFrame \<Rightarrow>
          if is_dirty (pages s ! targetFrame)
          then (True, upd_frame targetFrame (\<lambda>p. p\<lparr>is_dirty := False\<rparr>)
                        (disk_write pid (data (pages s ! targetFrame)) s))
          else (True, s)
      | None \<Rightarrow> (False, s))"

subsection \<open>NewPageImpl\<close>

text \<open>
  The result is the page id stored through the output parameter together with the frame of
  the returned pointer, or \<open>None\<close> for \<open>nullptr\<close> (the output parameter is then untouched).
\<close>

definition NewPage_free :: "BufferPoolManager \<Rightarrow> (page_id_t \<times> frame_id_t) option \<times> BufferPoolManager" where
  "NewPage_free s =
     (let freeFrame = last (free_list s);
          s = s\<lparr>free_list := butlast (free_list s)\<rparr>;
          (pid, d) = AllocatePage (disk_manager s);
          s = s\<lparr>disk_manager := d\<rparr>;
          s = upd_frame freeFrame ResetMemory s;
          s = upd_frame freeFrame (\<lambda>p. p\<lparr>is_dirty := False\<rparr>) s;
          s = upd_frame freeFrame (\<lambda>p. p\<lparr>page_id := pid\<rparr>) s;
          s = upd_frame freeFrame (\<lambda>p. p\<lparr>pin_count := 1\<rparr>) s;
          s = table_bind pid freeFrame s;
          s = replacer_Pin freeFrame s;
          s = unlock s
      in (Some (pid, freeFrame), s))"

definition NewPage_evict :: "BufferPoolManager \<Rightarrow> (page_id_t \<times> frame_id_t) option \<times> BufferPoolManager" where
  "NewPage_evict s =
     (case Victim (replacer s) of
        None \<Rightarrow> (None, unlock s)
      | Some (newCandidFrame, r) \<Rightarrow>
          (let s = s\<lparr>replacer := r\<rparr>;
               evictingPage = GetPageId (pages s ! newCandidFrame);
               s = (if is_dirty (pages s ! newCandidFrame)
                    then disk_write evictingPage (data (pages s ! newCandidFrame)) s
                    else s);
               s = table_erase evictingPage s;
               (pid, d) = AllocatePage (disk_manager s);
               s = s\<lparr>disk_manager := d\<rparr>;
               s = upd_frame newCandidFrame ResetMemory s;
               s = upd_frame newCandidFrame (\<lambda>p. p\<lparr>is_dirty := False\<rparr>) s;
               s = upd_frame newCandidFrame (\<lambda>p. p\<lparr>pin_count := 1\<rparr>) s;
               s = upd_frame newCandidFrame (\<lambda>p. p\<lparr>page_id := pid\<rparr>) s;
               s = replacer_Pin newCandidFrame s;
               s = table_bind pid newCandidFrame s;
               s = unlock s
           in (Some (pid, newCandidFrame), s)))"

definition NewPageImpl ::
  "BufferPoolManager \<Rightarrow> ((page_id_t \<times> frame_id_t) option \<times> BufferPoolManager) option" where
  "NewPageImpl s0 =
     (case lock s0 of
        None \<Rightarrow> None
      | Some s \<Rightarrow>
          if length (free_list s) \<noteq> 0 then Some (NewPage_free s) else Some (NewPage_evict s))"

subsection \<open>DeletePageImpl\<close>

text \<open>
  The branch that deletes: the deallocation, the removal from the page table, the reset of
  buffer, dirty flag and pin count, and the return of the frame to the free list. The
  frame's page id is left as it was and the replacer is not told.
\<close>

definition DeletePage_reset :: "page_id_t \<Rightarrow> frame_id_t \<Rightarrow> BufferPoolManager \<Rightarrow> BufferPoolManager" where
  "DeletePage_reset pid targetFrame s =
     (let s = disk_deallocate pid s;
          s = table_erase pid s;
          s = upd_frame targetFrame ResetMemory s;
          s = upd_frame targetFrame (\<lambda>p. p\<lparr>is_dirty := False\<rparr>) s;
          s = upd_frame targetFrame (\<lambda>p. p\<lparr>pin_count := 0\<rparr>) s;
          s = s\<lparr>free_list := free_list s @ [targetFrame]\<rparr>;
          s = unlock s
      in s)"

text \<open>The test that lets the deletion go ahead compares the frame's page id with 0.\<close>

definition DeletePageImpl ::
  "BufferPoolManager \<Rightarrow> page_id_t \<Rightarrow> (bool \<times> BufferPoolManager) option" where
  "DeletePageImpl s0 pid =
     (case lock s0 of
        None \<Rightarrow> None
      | Some s \<Rightarrow>
          (case page_table s pid of
             Some targetFrame \<Rightarrow>
               if GetPageId (pages s ! targetFrame) = 0
               then Some (True, DeletePage_reset pid targetFrame s)
               else Some (False, unlock s)
           | None \<Rightarrow> Some (True, unlock s)))"

subsection \<open>FlushAllPagesImpl\<close>

definition FlushAll_step :: "nat \<Rightarrow> BufferPoolManager \<Rightarrow> BufferPoolManager" where
  "FlushAll_step i s =
     (if is_dirty (pages s ! i) then snd (FlushPageImpl s (GetPageId (pages s ! i))) else s)"

definition FlushAllPagesImpl :: "BufferPoolManager \<Rightarrow> BufferPoolManager option" where
  "FlushAllPagesImpl s0 =
     (case lock s0 of
        None \<Rightarrow> None
      | Some s \<Rightarrow> Some (unlock (fold FlushAll_step [0..<pool_size s] s)))"

subsection \<open>Clients and reachable states\<close>

text \<open>
  A client that holds the pointer returned by a fetch or an allocation writes into the
  frame's buffer through it; nothing else of the manager is visible to it.
\<close>

definition write_buffer :: "frame_id_t \<Rightarrow> page_data \<Rightarrow> BufferPoolManager \<Rightarrow> BufferPoolManager" where
  "write_buffer f buf s = upd_frame f (\<lambda>p. p\<lparr>data := buf\<rparr>) s"

text \<open>
  The states reachable from construction by the public operations, with client writes into
  frame buffers in between.
\<close>

inductive reachable :: "BufferPoolManager \<Rightarrow> bool" where
  r_new: "reachable (BufferPoolManager_new n d)"
| r_fetch: "reachable s \<Longrightarrow> FetchPageImpl s pid = Some (res, s') \<Longrightarrow> reachable s'"
| r_unpin: "reachable s \<Longrightarrow> UnpinPageImpl s pid dirty = Some (ok, s') \<Longrightarrow> reachable s'"
| r_flush: "reachable s \<Longrightarrow> FlushPageImpl s pid = (ok, s') \<Longrightarrow> reachable s'"
| r_newpage: "reachable s \<Longrightarrow> NewPageImpl s = Some (res', s') \<Longrightarrow> reachable s'"
| r_delete: "reachable s \<Longrightarrow> DeletePageImpl s pid = Some (ok, s') \<Longrightarrow> reachable s'"
| r_flush_all: "reachable s \<Longrightarrow> FlushAllPagesImpl s = Some s' \<Longrightarrow> reachable s'"
| r_write: "reachable s \<Longrightarrow> f < pool_size s \<Longrightarrow> reachable (write_buffer f buf s)"

subsection \<open>Scripts of requests\<close>

text \<open>
  A script is a sequence of calls made one after the other by a single client; running it
  gives the replies in order and the final state, or \<open>None\<close> when a call never returns.
\<close>

datatype request =
    Fetch page_id_t
  | New
  | Unpinning page_id_t bool
  | Flush page_id_t
  | FlushAll
  | Delete page_id_t
  | WriteBuffer frame_id_t page_data

datatype reply =
    Handle "frame_id_t option"
  | NewHandle "(page_id_t \<times> frame_id_t) option"
  | Flag bool
  | Done

fun perform :: "request \<Rightarrow> BufferPoolManager \<Rightarrow> (reply \<times> BufferPoolManager) option" where
  "perform (Fetch pid) s = map_option (\<lambda>(r, s'). (Handle r, s')) (FetchPageImpl s pid)"
| "perform New s = map_option (\<lambda>(r, s'). (NewHandle r, s')) (NewPageImpl s)"
| "perform (Unpinning pid dirty) s = map_option (\<lambda>(r, s'). (Flag r, s')) (UnpinPageImpl s pid dirty)"
| "perform (Flush pid) s = (case FlushPageImpl s pid of (r, s') \<Rightarrow> Some (Flag r, s'))"
| "perform FlushAll s = map_option (\<lambda>s'. (Done, s')) (FlushAllPagesImpl s)"
| "perform (Delete pid) s = map_option (\<lambda>(r, s'). (Flag r, s')) (DeletePageImpl s pid)"
| "perform (WriteBuffer f buf) s = Some (Done, if f < pool_size s then write_buffer f buf s else s)"

fun run :: "request list \<Rightarrow> BufferPoolManager \<Rightarrow> (reply list \<times> BufferPoolManager) option" where
  "run [] s = Some ([], s)"
| "run (q # qs) s =
     (case perform q s of
        None \<Rightarrow> None
      | Some (r, s') \<Rightarrow>
          (case run qs s' of None \<Rightarrow> None | Some (rs, s'') \<Rightarrow> Some (r # rs, s'')))"

text \<open>An all-zero disk with nothing allocated and no call made yet, for concrete runs.\<close>

definition disk0 :: DiskManager where
  "disk0 = \<lparr>store = (\<lambda>_. zero_page), next_page_id = 0, calls = []\<rparr>"

text \<open>A page of content that a client writes, different from the all-zero page.\<close>

definition marker_page :: page_data where
  "marker_page = replicate PAGE_SIZE 77"

text \<open>
  The state after a client has fetched page 1 into the only frame of a pool of size one,
  overwritten its buffer and unpinned it as dirty.
\<close>

definition dirty_state :: BufferPoolManager where
  "dirty_state =
     \<lparr>pool_size = 1,
      pages = [\<lparr>data = marker_page, page_id = 1, pin_count = 0, is_dirty = True\<rparr>],
      replacer = [(0, True)], free_list = [], page_table = [1 \<mapsto> 0],
      disk_manager = \<lparr>store = (\<lambda>_. zero_page), next_page_id = 0, calls = [CallRead 1]\<rparr>,
      latch = False\<rparr>"

text \<open>
  The state after a client has allocated a page into the only frame of a pool of size one
  and still holds it: nothing is free and nothing is evictable.
\<close>

definition pinned_state :: BufferPoolManager where
  "pinned_state =
     \<lparr>pool_size = 1,
      pages = [\<lparr>data = zero_page, page_id = 0, pin_count = 1, is_dirty = False\<rparr>],
      replacer = [], free_list = [], page_table = [0 \<mapsto> 0],
      disk_manager = \<lparr>store = (\<lambda>_. zero_page), next_page_id = 1, calls = [CallAllocate 0]\<rparr>,
      latch = False\<rparr>"

text \<open>
  The state in which \<open>FetchPageImpl dirty_state 2\<close> ends: page 2 has replaced page 1 in the
  only frame.
\<close>

definition evicted_state :: BufferPoolManager where
  "evicted_state =
     \<lparr>pool_size = 1,
      pages = [\<lparr>data = marker_page, page_id = 2, pin_count = 1, is_dirty = False\<rparr>],
      replacer = [], free_list = [], page_table = [2 \<mapsto> 0],
      disk_manager =
        \<lparr>store = (\<lambda>_. zero_page)(2 := marker_page), next_page_id = 0,
         calls = [CallRead 1, CallWrite 2 marker_page, CallRead 2]\<rparr>,
      latch = False\<rparr>"

text \<open>The replies of a script and the state it ends in.\<close>

definition replies :: "request list \<Rightarrow> BufferPoolManager \<Rightarrow> reply list option" where
  "replies qs s = map_option fst (run qs s)"

definition final :: "request list \<Rightarrow> BufferPoolManager \<Rightarrow> BufferPoolManager option" where
  "final qs s = map_option snd (run qs s)"

subsection \<open>Well-formed states\<close>

text \<open>
  The bookkeeping that every reachable state keeps: the frame array has \<open>pool_size\<close>
  entries; the free list has no duplicates and holds only frames of the pool that are
  unpinned and clean; every page-table entry points to a frame of the pool that is not on
  the free list and that stores the entry's key as its page id; the replacer tracks only
  frames of the pool.
\<close>

definition frames_wf :: "BufferPoolManager \<Rightarrow> bool" where
  "frames_wf s \<longleftrightarrow>
     length (pages s) = pool_size s \<and>
     distinct (free_list s) \<and>
     (\<forall>f \<in> set (free_list s). f < pool_size s \<and> pin_count (pages s ! f) = 0 \<and> \<not> is_dirty (pages s ! f)) \<and>
     (\<forall>pid f. page_table s pid = Some f \<longrightarrow>
        f < pool_size s \<and> f \<notin> set (free_list s) \<and> page_id (pages s ! f) = pid) \<and>
     (\<forall>f \<in> tracked (replacer s). f < pool_size s)"

text \<open>
  The latch can only be found held when nothing is free and nothing is evictable.
\<close>

definition latch_wf :: "BufferPoolManager \<Rightarrow> bool" where
  "latch_wf s \<longleftrightarrow> (latch s \<longrightarrow> free_list s = [] \<and> replacer s = [])"

subsection \<open>Counting the fetches\<close>

text \<open>
  The states reachable from construction by public operations of which exactly \<open>n\<close> are
  calls of \<open>FetchPageImpl\<close>, the only operation that increments a pin count.
\<close>

inductive reachable_within :: "nat \<Rightarrow> BufferPoolManager \<Rightarrow> bool" where
  w_new: "reachable_within 0 (BufferPoolManager_new m d)"
| w_fetch: "reachable_within n s \<Longrightarrow> FetchPageImpl s pid = Some (res, s') \<Longrightarrow>
            reachable_within (Suc n) s'"
| w_unpin: "reachable_within n s \<Longrightarrow> UnpinPageImpl s pid dirty = Some (ok, s') \<Longrightarrow>
            reachable_within n s'"
| w_flush: "reachable_within n s \<Longrightarrow> FlushPageImpl s pid = (ok, s') \<Longrightarrow> reachable_within n s'"
| w_newpage: "reachable_within n s \<Longrightarrow> NewPageImpl s = Some (res', s') \<Longrightarrow> reachable_within n s'"
| w_delete: "reachable_within n s \<Longrightarrow> DeletePageImpl s pid = Some (ok, s') \<Longrightarrow>
             reachable_within n s'"
| w_flush_all: "reachable_within n s \<Longrightarrow> FlushAllPagesImpl s = Some s' \<Longrightarrow> reachable_within n s'"
| w_write: "reachable_within n s \<Longrightarrow> f < pool_size s \<Longrightarrow> reachable_within n (write_buffer f buf s)"


text \<open>
  After \<open>n\<close> fetches no pin count has left the range from 0 to \<open>n + 1\<close> (an allocation
  sets it to 1, every fetch adds 1), as long as the 32-bit counter has not wrapped.
\<close>

definition pins_bounded :: "nat \<Rightarrow> BufferPoolManager \<Rightarrow> bool" where
  "pins_bounded n s \<longleftrightarrow>
     (\<forall>f < length (pages s). 0 \<le> pin_count (pages s ! f) \<and> pin_count (pages s ! f) \<le> int n + 1)"

text \<open>A resident page that nobody holds is known to the replacer.\<close>

definition idle_tracked :: "BufferPoolManager \<Rightarrow> bool" where
  "idle_tracked s \<longleftrightarrow>
     (\<forall>pid f. page_table s pid = Some f \<and> pin_count (pages s ! f) = 0 \<longrightarrow> f \<in> tracked (replacer s))"


section \<open>Basic facts\<close>

lemmas prim_defs =
  lock_def unlock_def upd_frame_def disk_write_def disk_read_into_def disk_deallocate_def
  table_erase_def table_bind_def replacer_Pin_def replacer_Unpin_def
  ResetMemory_def GetPageId_def GetPinCount_def
  AllocatePage_def DeallocatePage_def ReadPage_def WritePage_def

lemmas op_defs =
  FetchPageImpl_def FetchPage_hit_def FetchPage_free_def FetchPage_evict_def
  UnpinPageImpl_def UnpinPage_release_def FlushPageImpl_def NewPageImpl_def NewPage_free_def NewPage_evict_def
  DeletePageImpl_def DeletePage_reset_def FlushAllPagesImpl_def FlushAll_step_def write_buffer_def

lemmas run_defs =
  op_defs prim_defs BufferPoolManager_new_def new_Page_def disk0_def
  Pin_def Unpin_def tracked_def Let_def int32_def

lemma marker_page_not_zero: "marker_page \<noteq> zero_page"
  by (simp add: marker_page_def zero_page_def PAGE_SIZE_def)

lemma dirty_state_run:
  "run [Fetch 1, WriteBuffer 0 marker_page, Unpinning 1 True] (BufferPoolManager_new 1 disk0) =
     Some ([Handle (Some 0), Done, Flag True], dirty_state)"
  by (simp add: run_defs dirty_state_def)

lemma lock_free: "\<not> latch s \<Longrightarrow> lock s = Some (s\<lparr>latch := True\<rparr>)"
  by (simp add: lock_def)

lemma unlock_locked: "\<not> latch s \<Longrightarrow> unlock (s\<lparr>latch := True\<rparr>) = s"
  by (cases s) (simp add: unlock_def)

lemma perform_reachable: "reachable s \<Longrightarrow> perform q s = Some (r, s') \<Longrightarrow> reachable s'"
  by (cases q) (auto intro: reachable.intros split: prod.splits if_splits)

lemma run_reachable: "reachable s \<Longrightarrow> run qs s = Some (rs, s') \<Longrightarrow> reachable s'"
proof (induction qs arbitrary: s rs)
  case Nil
  then show ?case by simp
next
  case (Cons q qs)
  then show ?case
    by (auto split: option.splits prod.splits dest: perform_reachable)
qed

lemma dirty_state_reachable: "reachable dirty_state"
  using run_reachable [OF r_new dirty_state_run] .

lemma pinned_state_run:
  "run [New] (BufferPoolManager_new 1 disk0) = Some ([NewHandle (Some (0, 0))], pinned_state)"
  by (simp add: run_defs pinned_state_def)

lemma pinned_state_reachable: "reachable pinned_state"
  using run_reachable [OF r_new pinned_state_run] .

section \<open>Reachable states are well-formed\<close>

lemma tracked_Pin: "tracked (Pin r f) = tracked r - {f}"
  by (auto simp: tracked_def Pin_def)

lemma tracked_Unpin: "tracked (Unpin r f) = insert f (tracked r)"
  by (auto simp: tracked_def Unpin_def)

lemma Victim_tracked: "Victim r = Some (f, r') \<Longrightarrow> f \<in> tracked r \<and> tracked r' \<subseteq> tracked r"
  by (induction r arbitrary: f r' rule: Victim.induct) (auto simp: tracked_def split: if_splits)

lemma Victim_None: "Victim r = None \<longleftrightarrow> r = []"
  by (induction r rule: Victim.induct) auto

lemma frames_wf_latch [simp]: "frames_wf (s\<lparr>latch := b\<rparr>) = frames_wf s"
  by (simp add: frames_wf_def)

lemma frames_wf_unlock [simp]: "frames_wf (unlock s) = frames_wf s"
  by (simp add: unlock_def)

lemma lock_Some: "lock s = Some s' \<Longrightarrow> s' = s\<lparr>latch := True\<rparr>"
  by (simp add: lock_def split: if_splits)

lemma wf_new: "frames_wf (BufferPoolManager_new n d)"
  by (simp add: frames_wf_def BufferPoolManager_new_def new_Page_def tracked_def)

lemma hit_fields:
  "pool_size (snd (FetchPage_hit f s)) = pool_size s"
  "free_list (snd (FetchPage_hit f s)) = free_list s"
  "page_table (snd (FetchPage_hit f s)) = page_table s"
  "replacer (snd (FetchPage_hit f s)) = Pin (replacer s) f"
  "disk_manager (snd (FetchPage_hit f s)) = disk_manager s"
  "latch (snd (FetchPage_hit f s)) = False"
  "pages (snd (FetchPage_hit f s)) = (pages s)[f := (pages s ! f)\<lparr>pin_count := int32 (pin_count (pages s ! f) + 1)\<rparr>]"
  by (simp_all add: FetchPage_hit_def prim_defs Let_def)

lemma fetch_free_fields:
  "pool_size (snd (FetchPage_free pid s)) = pool_size s"
  "free_list (snd (FetchPage_free pid s)) = tl (free_list s)"
  "page_table (snd (FetchPage_free pid s)) = (page_table s)(pid \<mapsto> hd (free_list s))"
  "replacer (snd (FetchPage_free pid s)) = Pin (replacer s) (hd (free_list s))"
  "disk_manager (snd (FetchPage_free pid s)) = (disk_manager s)\<lparr>calls := calls (disk_manager s) @ [CallRead pid]\<rparr>"
  "latch (snd (FetchPage_free pid s)) = False"
  "fst (FetchPage_free pid s) = Some (hd (free_list s))"
  by (simp_all add: FetchPage_free_def prim_defs Let_def)

lemma fetch_free_pages:
  "length (pages (snd (FetchPage_free pid s))) = length (pages s)"
  "g < length (pages s) \<Longrightarrow>
     pages (snd (FetchPage_free pid s)) ! g =
       (if g = hd (free_list s)
        then \<lparr>data = store (disk_manager s) pid, page_id = pid,
              pin_count = int32 (pin_count (pages s ! g) + 1), is_dirty = False\<rparr>
        else pages s ! g)"
  by (simp_all add: FetchPage_free_def prim_defs Let_def)

lemma fetch_evict_fields:
  assumes "Victim (replacer s) = Some (f, r)"
  shows
  "pool_size (snd (FetchPage_evict pid s)) = pool_size s"
  "free_list (snd (FetchPage_evict pid s)) = free_list s"
  "page_table (snd (FetchPage_evict pid s)) = ((page_table s)(page_id (pages s ! f) := None))(pid \<mapsto> f)"
  "replacer (snd (FetchPage_evict pid s)) = Pin r f"
  "latch (snd (FetchPage_evict pid s)) = False"
  "calls (disk_manager (snd (FetchPage_evict pid s))) =
     calls (disk_manager s) @
       (if is_dirty (pages s ! f) then [CallWrite pid (data (pages s ! f))] else []) @ [CallRead pid]"
  "fst (FetchPage_evict pid s) = Some f"
  using assms by (simp_all add: FetchPage_evict_def prim_defs Let_def)

lemma fetch_evict_pages:
  assumes "Victim (replacer s) = Some (f, r)"
  shows
  "length (pages (snd (FetchPage_evict pid s))) = length (pages s)"
  "g < length (pages s) \<Longrightarrow>
     pages (snd (FetchPage_evict pid s)) ! g =
       (if g = f
        then \<lparr>data = (if is_dirty (pages s ! f) then data (pages s ! f)
                      else store (disk_manager s) pid),
              page_id = pid, pin_count = int32 (pin_count (pages s ! f) + 1), is_dirty = False\<rparr>
        else pages s ! g)"
  using assms by (simp_all add: FetchPage_evict_def prim_defs Let_def)

lemma new_free_fields:
  "pool_size (snd (NewPage_free s)) = pool_size s"
  "free_list (snd (NewPage_free s)) = butlast (free_list s)"
  "page_table (snd (NewPage_free s)) = (page_table s)(next_page_id (disk_manager s) \<mapsto> last (free_list s))"
  "replacer (snd (NewPage_free s)) = Pin (replacer s) (last (free_list s))"
  "latch (snd (NewPage_free s)) = False"
  "fst (NewPage_free s) = Some (next_page_id (disk_manager s), last (free_list s))"
  "calls (disk_manager (snd (NewPage_free s))) =
     calls (disk_manager s) @ [CallAllocate (next_page_id (disk_manager s))]"
  by (simp_all add: NewPage_free_def prim_defs Let_def)

lemma new_free_pages:
  "length (pages (snd (NewPage_free s))) = length (pages s)"
  "g < length (pages s) \<Longrightarrow>
     pages (snd (NewPage_free s)) ! g =
       (if g = last (free_list s)
        then \<lparr>data = zero_page, page_id = next_page_id (disk_manager s),
              pin_count = 1, is_dirty = False\<rparr>
        else pages s ! g)"
  by (simp_all add: NewPage_free_def prim_defs Let_def)

lemma new_evict_fields:
  assumes "Victim (replacer s) = Some (f, r)"
  shows
  "pool_size (snd (NewPage_evict s)) = pool_size s"
  "free_list (snd (NewPage_evict s)) = free_list s"
  "page_table (snd (NewPage_evict s)) =
     ((page_table s)(page_id (pages s ! f) := None))(next_page_id (disk_manager s) \<mapsto> f)"
  "replacer (snd (NewPage_evict s)) = Pin r f"
  "latch (snd (NewPage_evict s)) = False"
  "fst (NewPage_evict s) = Some (next_page_id (disk_manager s), f)"
  "calls (disk_manager (snd (NewPage_evict s))) =
     calls (disk_manager s) @
       (if is_dirty (pages s ! f) then [CallWrite (page_id (pages s ! f)) (data (pages s ! f))] else []) @
       [CallAllocate (next_page_id (disk_manager s))]"
  using assms by (simp_all add: NewPage_evict_def prim_defs Let_def)

lemma new_evict_pages:
  assumes "Victim (replacer s) = Some (f, r)"
  shows
  "length (pages (snd (NewPage_evict s))) = length (pages s)"
  "g < length (pages s) \<Longrightarrow>
     pages (snd (NewPage_evict s)) ! g =
       (if g = f
        then \<lparr>data = zero_page, page_id = next_page_id (disk_manager s),
              pin_count = 1, is_dirty = False\<rparr>
        else pages s ! g)"
  using assms by (simp_all add: NewPage_evict_def prim_defs Let_def)

lemma wf_hit: "frames_wf s \<Longrightarrow> page_table s pid = Some f \<Longrightarrow> frames_wf (snd (FetchPage_hit f s))"
  unfolding frames_wf_def by (auto simp: hit_fields tracked_Pin nth_list_update)

lemma wf_fetch_free:
  "frames_wf s \<Longrightarrow> page_table s pid = None \<Longrightarrow> free_list s \<noteq> [] \<Longrightarrow>
   frames_wf (snd (FetchPage_free pid s))"
  unfolding frames_wf_def
  by (cases "free_list s") (auto simp: fetch_free_fields fetch_free_pages tracked_Pin)

lemma wf_fetch_evict:
  "frames_wf s \<Longrightarrow> free_list s = [] \<Longrightarrow> frames_wf (snd (FetchPage_evict pid s))"
proof (cases "Victim (replacer s)")
  case None
  assume "frames_wf s"
  with None show ?thesis by (simp add: FetchPage_evict_def)
next
  case (Some a)
  assume wf: "frames_wf s" and fl: "free_list s = []"
  obtain f r where v: "Victim (replacer s) = Some (f, r)" using Some by (cases a) auto
  from Victim_tracked[OF v] wf have "f < pool_size s" "\<forall>g \<in> tracked r. g < pool_size s"
    by (auto simp: frames_wf_def)
  with wf fl show ?thesis
    unfolding frames_wf_def
    by (auto simp: fetch_evict_fields[OF v] fetch_evict_pages[OF v] tracked_Pin)
qed

lemma wf_new_free:
  "frames_wf s \<Longrightarrow> free_list s \<noteq> [] \<Longrightarrow> frames_wf (snd (NewPage_free s))"
  unfolding frames_wf_def
  by (cases "free_list s" rule: rev_cases)
     (auto simp: new_free_fields new_free_pages tracked_Pin)

lemma wf_new_evict:
  "frames_wf s \<Longrightarrow> free_list s = [] \<Longrightarrow> frames_wf (snd (NewPage_evict s))"
proof (cases "Victim (replacer s)")
  case None
  assume "frames_wf s"
  with None show ?thesis by (simp add: NewPage_evict_def)
next
  case (Some a)
  assume wf: "frames_wf s" and fl: "free_list s = []"
  obtain f r where v: "Victim (replacer s) = Some (f, r)" using Some by (cases a) auto
  from Victim_tracked[OF v] wf have "f < pool_size s" "\<forall>g \<in> tracked r. g < pool_size s"
    by (auto simp: frames_wf_def)
  with wf fl show ?thesis
    unfolding frames_wf_def
    by (auto simp: new_evict_fields[OF v] new_evict_pages[OF v] tracked_Pin)
qed

lemma wf_FetchPageImpl:
  assumes "frames_wf s" "FetchPageImpl s pid = Some (res, s')"
  shows "frames_wf s'"
proof -
  from assms(2) obtain t where t: "lock s = Some t"
    by (auto simp: FetchPageImpl_def split: option.splits)
  then have wt: "frames_wf t" using assms(1) by (auto dest: lock_Some)
  show ?thesis
  proof (cases "page_table t pid")
    case (Some f)
    with assms(2) t have "s' = snd (FetchPage_hit f t)" by (simp add: FetchPageImpl_def)
    with wt Some show ?thesis by (simp add: wf_hit)
  next
    case None
    show ?thesis
    proof (cases "free_list t = []")
      case True
      with assms(2) t None have "s' = snd (FetchPage_evict pid t)" by (simp add: FetchPageImpl_def)
      with wt True show ?thesis by (simp add: wf_fetch_evict)
    next
      case False
      with assms(2) t None have "s' = snd (FetchPage_free pid t)" by (simp add: FetchPageImpl_def)
      with wt None False show ?thesis by (simp add: wf_fetch_free)
    qed
  qed
qed

lemma wf_NewPageImpl:
  assumes "frames_wf s" "NewPageImpl s = Some (res, s')"
  shows "frames_wf s'"
proof -
  from assms(2) obtain t where t: "lock s = Some t"
    by (auto simp: NewPageImpl_def split: option.splits)
  then have wt: "frames_wf t" using assms(1) by (auto dest: lock_Some)
  show ?thesis
  proof (cases "free_list t = []")
    case True
    with assms(2) t have "s' = snd (NewPage_evict t)" by (simp add: NewPageImpl_def)
    with wt True show ?thesis by (simp add: wf_new_evict)
  next
    case False
    with assms(2) t have "s' = snd (NewPage_free t)" by (simp add: NewPageImpl_def)
    with wt False show ?thesis by (simp add: wf_new_free)
  qed
qed

lemma release_fields:
  "pool_size (UnpinPage_release f dirty s) = pool_size s"
  "free_list (UnpinPage_release f dirty s) = free_list s"
  "page_table (UnpinPage_release f dirty s) = page_table s"
  "disk_manager (UnpinPage_release f dirty s) = disk_manager s"
  "latch (UnpinPage_release f dirty s) = False"
  "length (pages (UnpinPage_release f dirty s)) = length (pages s)"
  "tracked (replacer (UnpinPage_release f dirty s)) \<subseteq> insert f (tracked (replacer s))"
  by (auto simp: UnpinPage_release_def prim_defs Let_def tracked_Unpin)

lemma release_pages:
  "g < length (pages s) \<Longrightarrow>
     pages (UnpinPage_release f dirty s) ! g =
       (if g = f
        then (pages s ! f)\<lparr>pin_count := int32 (pin_count (pages s ! f) - 1),
                            is_dirty := (dirty \<or> is_dirty (pages s ! f))\<rparr>
        else pages s ! g)"
  by (cases "pages s ! f") (auto simp: UnpinPage_release_def prim_defs Let_def)

lemma reset_fields:
  "pool_size (DeletePage_reset pid f s) = pool_size s"
  "free_list (DeletePage_reset pid f s) = free_list s @ [f]"
  "page_table (DeletePage_reset pid f s) = (page_table s)(pid := None)"
  "replacer (DeletePage_reset pid f s) = replacer s"
  "calls (disk_manager (DeletePage_reset pid f s)) = calls (disk_manager s) @ [CallDeallocate pid]"
  "latch (DeletePage_reset pid f s) = False"
  "length (pages (DeletePage_reset pid f s)) = length (pages s)"
  by (simp_all add: DeletePage_reset_def prim_defs Let_def)

lemma reset_pages:
  "g < length (pages s) \<Longrightarrow>
     pages (DeletePage_reset pid f s) ! g =
       (if g = f
        then \<lparr>data = zero_page, page_id = page_id (pages s ! f), pin_count = 0, is_dirty = False\<rparr>
        else pages s ! g)"
  by (simp_all add: DeletePage_reset_def prim_defs Let_def)

lemma wf_table_key: "frames_wf s \<Longrightarrow> page_table s q = Some g \<Longrightarrow> page_id (pages s ! g) = q"
  by (simp add: frames_wf_def)

lemma wf_release:
  assumes "frames_wf s" "page_table s pid = Some f" "0 < pin_count (pages s ! f)"
  shows "frames_wf (UnpinPage_release f dirty s)"
proof -
  from assms have "f < pool_size s" by (simp add: frames_wf_def)
  with assms(1) release_fields(7) [of f dirty s]
  have tr: "\<forall>g \<in> tracked (replacer (UnpinPage_release f dirty s)). g < pool_size s"
    by (auto simp: frames_wf_def)
  from assms tr show ?thesis
    unfolding frames_wf_def by (auto simp: release_fields(1-6) release_pages)
qed

lemma wf_reset:
  assumes "frames_wf s" "page_table s pid = Some f"
  shows "frames_wf (DeletePage_reset pid f s)"
proof -
  have other: "g \<noteq> f" if "page_table s q = Some g" "q \<noteq> pid" for q g
    using wf_table_key [OF assms(1) that(1)] wf_table_key [OF assms] that(2) by auto
  show ?thesis
    using assms other unfolding frames_wf_def
    by (auto simp: reset_fields reset_pages)
qed

lemma wf_UnpinPageImpl:
  assumes "frames_wf s" "UnpinPageImpl s pid dirty = Some (ok, s')"
  shows "frames_wf s'"
proof -
  from assms(2) obtain t where t: "lock s = Some t"
    by (auto simp: UnpinPageImpl_def split: option.splits)
  then have wt: "frames_wf t" using assms(1) by (auto dest: lock_Some)
  show ?thesis
  proof (cases "page_table t pid")
    case None
    with assms(2) t wt show ?thesis by (auto simp: UnpinPageImpl_def)
  next
    case (Some f)
    with assms(2) t wt show ?thesis
      by (auto simp: UnpinPageImpl_def GetPinCount_def wf_release split: if_splits)
  qed
qed

lemma wf_FlushPageImpl:
  assumes "frames_wf s" "FlushPageImpl s pid = (ok, s')"
  shows "frames_wf s'"
proof (cases "page_table s pid")
  case None
  with assms show ?thesis by (simp add: FlushPageImpl_def)
next
  case (Some f)
  show ?thesis
  proof (cases "is_dirty (pages s ! f)")
    case False
    with assms Some show ?thesis by (simp add: FlushPageImpl_def)
  next
    case True
    with assms(2) Some
    have s': "s' = upd_frame f (\<lambda>p. p\<lparr>is_dirty := False\<rparr>) (disk_write pid (data (pages s ! f)) s)"
      by (simp add: FlushPageImpl_def)
    from assms(1) Some have "f < length (pages s)" by (simp add: frames_wf_def)
    with assms(1) show ?thesis unfolding s' frames_wf_def
      by (auto simp: prim_defs nth_list_update)
  qed
qed

lemma wf_DeletePageImpl:
  assumes "frames_wf s" "DeletePageImpl s pid = Some (ok, s')"
  shows "frames_wf s'"
proof -
  from assms(2) obtain t where t: "lock s = Some t"
    by (auto simp: DeletePageImpl_def split: option.splits)
  then have wt: "frames_wf t" using assms(1) by (auto dest: lock_Some)
  show ?thesis
  proof (cases "page_table t pid")
    case None
    with assms(2) t wt show ?thesis by (auto simp: DeletePageImpl_def)
  next
    case (Some f)
    with assms(2) t wt show ?thesis
      by (auto simp: DeletePageImpl_def wf_reset split: if_splits)
  qed
qed

lemma wf_FlushAll_step: "frames_wf s \<Longrightarrow> frames_wf (FlushAll_step i s)"
  using wf_FlushPageImpl [of s "GetPageId (pages s ! i)"]
  by (cases "FlushPageImpl s (GetPageId (pages s ! i))") (simp add: FlushAll_step_def)

lemma wf_fold_FlushAll_step: "frames_wf s \<Longrightarrow> frames_wf (fold FlushAll_step is s)"
  by (induction "is" arbitrary: s) (simp_all add: wf_FlushAll_step)

lemma wf_FlushAllPagesImpl:
  assumes "frames_wf s" "FlushAllPagesImpl s = Some s'"
  shows "frames_wf s'"
  using assms
  by (auto simp: FlushAllPagesImpl_def wf_fold_FlushAll_step split: option.splits dest!: lock_Some)

lemma wf_write_buffer: "frames_wf s \<Longrightarrow> frames_wf (write_buffer f buf s)"
  unfolding frames_wf_def
  by (cases "f < length (pages s)")
     (auto simp: write_buffer_def upd_frame_def nth_list_update list_update_beyond)

lemma reachable_wf: "reachable s \<Longrightarrow> frames_wf s"
proof (induction rule: reachable.induct)
  case (r_new n d)
  show ?case by (rule wf_new)
next
  case (r_fetch s pid res s')
  then show ?case by (blast intro: wf_FetchPageImpl)
next
  case (r_unpin s pid dirty ok s')
  then show ?case by (blast intro: wf_UnpinPageImpl)
next
  case (r_flush s pid ok s')
  then show ?case by (blast intro: wf_FlushPageImpl)
next
  case (r_newpage s res' s')
  then show ?case by (blast intro: wf_NewPageImpl)
next
  case (r_delete s pid ok s')
  then show ?case by (blast intro: wf_DeletePageImpl)
next
  case (r_flush_all s s')
  then show ?case by (blast intro: wf_FlushAllPagesImpl)
next
  case (r_write s f buf)
  then show ?case by (simp add: wf_write_buffer)
qed

section \<open>The latch in reachable states\<close>

lemma latch_FetchPageImpl:
  assumes "FetchPageImpl s pid = Some (res, s')"
  shows "latch_wf s'"
proof -
  from assms obtain t where t: "lock s = Some t"
    by (auto simp: FetchPageImpl_def split: option.splits)
  show ?thesis
  proof (cases "page_table t pid")
    case (Some f)
    with assms t have "s' = snd (FetchPage_hit f t)" by (simp add: FetchPageImpl_def)
    then show ?thesis by (simp add: latch_wf_def hit_fields)
  next
    case None
    show ?thesis
    proof (cases "free_list t = []")
      case False
      with assms t None have "s' = snd (FetchPage_free pid t)" by (simp add: FetchPageImpl_def)
      then show ?thesis by (simp add: latch_wf_def fetch_free_fields)
    next
      case True
      with assms t None have s': "s' = snd (FetchPage_evict pid t)" by (simp add: FetchPageImpl_def)
      show ?thesis
      proof (cases "Victim (replacer t)")
        case None
        then have "replacer t = []" by (simp add: Victim_None)
        with None True s' show ?thesis by (simp add: latch_wf_def FetchPage_evict_def)
      next
        case (Some a)
        then obtain f r where "Victim (replacer t) = Some (f, r)" by (cases a) auto
        with s' show ?thesis by (simp add: latch_wf_def fetch_evict_fields)
      qed
    qed
  qed
qed

lemma latch_NewPage_free: "\<not> latch (snd (NewPage_free s))"
  by (simp add: new_free_fields)

lemma latch_NewPage_evict: "\<not> latch (snd (NewPage_evict s))"
proof (cases "Victim (replacer s)")
  case None
  then show ?thesis by (simp add: NewPage_evict_def unlock_def)
next
  case (Some a)
  then obtain f r where "Victim (replacer s) = Some (f, r)" by (cases a) auto
  then show ?thesis by (simp add: new_evict_fields)
qed

lemma latch_NewPageImpl: "NewPageImpl s = Some (res, s') \<Longrightarrow> \<not> latch s'"
  by (auto simp: NewPageImpl_def split: option.splits if_splits
           dest: arg_cong [where f = "\<lambda>x. latch (snd x)"]
           simp: latch_NewPage_free latch_NewPage_evict)

lemma latch_UnpinPageImpl: "UnpinPageImpl s pid dirty = Some (ok, s') \<Longrightarrow> \<not> latch s'"
  by (auto simp: UnpinPageImpl_def release_fields unlock_def split: option.splits if_splits)

lemma latch_DeletePageImpl: "DeletePageImpl s pid = Some (ok, s') \<Longrightarrow> \<not> latch s'"
  by (auto simp: DeletePageImpl_def reset_fields unlock_def split: option.splits if_splits)

lemma latch_FlushAllPagesImpl: "FlushAllPagesImpl s = Some s' \<Longrightarrow> \<not> latch s'"
  by (auto simp: FlushAllPagesImpl_def unlock_def split: option.splits)

lemma latch_FlushPageImpl: "latch_wf s \<Longrightarrow> latch_wf (snd (FlushPageImpl s pid))"
  by (auto simp: latch_wf_def FlushPageImpl_def prim_defs split: option.splits)

lemma reachable_latch: "reachable s \<Longrightarrow> latch_wf s"
proof (induction rule: reachable.induct)
  case (r_new n d)
  show ?case by (simp add: latch_wf_def BufferPoolManager_new_def)
next
  case (r_fetch s pid res s')
  then show ?case by (blast intro: latch_FetchPageImpl)
next
  case (r_unpin s pid dirty ok s')
  then show ?case by (auto simp: latch_wf_def dest: latch_UnpinPageImpl)
next
  case (r_flush s pid ok s')
  then show ?case using latch_FlushPageImpl [of s pid] by simp
next
  case (r_newpage s res' s')
  then show ?case by (auto simp: latch_wf_def dest: latch_NewPageImpl)
next
  case (r_delete s pid ok s')
  then show ?case by (auto simp: latch_wf_def dest: latch_DeletePageImpl)
next
  case (r_flush_all s s')
  then show ?case by (auto simp: latch_wf_def dest: latch_FlushAllPagesImpl)
next
  case (r_write s f buf)
  then show ?case by (simp add: latch_wf_def write_buffer_def upd_frame_def)
qed

lemma FetchPageImpl_miss:
  assumes "\<not> latch s" "page_table s pid = None"
  shows "\<exists>res s'. FetchPageImpl s pid = Some (res, s') \<and>
         (res = None \<longleftrightarrow> free_list s = [] \<and> Victim (replacer s) = None) \<and>
         (free_list s \<noteq> [] \<longrightarrow> res = Some (hd (free_list s))) \<and>
         (free_list s = [] \<longrightarrow> res = map_option fst (Victim (replacer s)))"
proof (cases "free_list s = []")
  let ?t = "s\<lparr>latch := True\<rparr>"
  case False
  with assms have "FetchPageImpl s pid = Some (FetchPage_free pid ?t)"
    by (simp add: FetchPageImpl_def lock_free)
  moreover have "fst (FetchPage_free pid ?t) = Some (hd (free_list s))"
    by (simp add: fetch_free_fields)
  ultimately show ?thesis using False by (metis prod.collapse option.distinct(1))
next
  let ?t = "s\<lparr>latch := True\<rparr>"
  case True
  with assms have eq: "FetchPageImpl s pid = Some (FetchPage_evict pid ?t)"
    by (simp add: FetchPageImpl_def lock_free)
  have "fst (FetchPage_evict pid ?t) = map_option fst (Victim (replacer s))"
    by (cases "Victim (replacer s)") (auto simp: FetchPage_evict_def Let_def)
  with eq True show ?thesis by (cases "FetchPage_evict pid ?t") auto
qed

lemma NewPageImpl_result:
  assumes "\<not> latch s"
  shows "\<exists>res s'. NewPageImpl s = Some (res, s') \<and>
      (res = None \<longleftrightarrow> free_list s = [] \<and> Victim (replacer s) = None) \<and>
      (free_list s \<noteq> [] \<longrightarrow> map_option snd res = Some (last (free_list s))) \<and>
      (free_list s = [] \<longrightarrow> map_option snd res = map_option fst (Victim (replacer s)))"
proof (cases "free_list s = []")
  let ?t = "s\<lparr>latch := True\<rparr>"
  case False
  with assms have "NewPageImpl s = Some (NewPage_free ?t)"
    by (simp add: NewPageImpl_def lock_free)
  moreover have "fst (NewPage_free ?t) = Some (next_page_id (disk_manager s), last (free_list s))"
    by (simp add: new_free_fields)
  ultimately show ?thesis using False by (cases "NewPage_free ?t") auto
next
  let ?t = "s\<lparr>latch := True\<rparr>"
  case True
  with assms have eq: "NewPageImpl s = Some (NewPage_evict ?t)"
    by (simp add: NewPageImpl_def lock_free)
  have "map_option snd (fst (NewPage_evict ?t)) = map_option fst (Victim (replacer s))"
    by (cases "Victim (replacer s)") (auto simp: NewPage_evict_def prim_defs Let_def)
  with eq True show ?thesis by (cases "NewPage_evict ?t") auto
qed

section \<open>Pin counts while the counter has not wrapped\<close>



lemma reachable_reachable_within: "reachable s \<Longrightarrow> \<exists>n. reachable_within n s"
  by (induction rule: reachable.induct) (blast intro: reachable_within.intros)+






lemma pb_latch [simp]: "pins_bounded n (s\<lparr>latch := b\<rparr>) = pins_bounded n s"
  by (simp add: pins_bounded_def)

lemma pb_unlock [simp]: "pins_bounded n (unlock s) = pins_bounded n s"
  by (simp add: unlock_def)






















lemma it_latch [simp]: "idle_tracked (s\<lparr>latch := b\<rparr>) = idle_tracked s"
  by (simp add: idle_tracked_def)

lemma it_unlock [simp]: "idle_tracked (unlock s) = idle_tracked s"
  by (simp add: unlock_def)


























section \<open>FlushPage\<close>

text \<open>
  Claim C9. \<open>FlushPageImpl\<close> reports failure exactly when the page id is not in the page
  table. For a resident page whose frame is dirty it calls \<open>WritePage\<close> once, with the
  requested page id and the frame's buffer, clears the frame's dirty flag, changes nothing
  else and reports success. For a resident page whose frame is clean it reports success,
  makes no disk call and leaves the state as it was.
\<close>

theorem FlushPageImpl_behaviour:
  "(fst (FlushPageImpl s pid) = False \<longleftrightarrow> page_table s pid = None) \<and>
   (\<forall>f. page_table s pid = Some f \<and> is_dirty (pages s ! f) \<longrightarrow>
      FlushPageImpl s pid =
        (True, s\<lparr>pages := (pages s)[f := (pages s ! f)\<lparr>is_dirty := False\<rparr>],
                 disk_manager := WritePage (disk_manager s) pid (data (pages s ! f))\<rparr>) \<and>
      calls (disk_manager (snd (FlushPageImpl s pid))) =
        calls (disk_manager s) @ [CallWrite pid (data (pages s ! f))] \<and>
      store (disk_manager (snd (FlushPageImpl s pid))) pid = data (pages s ! f) \<and>
      (f < length (pages s) \<longrightarrow> \<not> is_dirty (pages (snd (FlushPageImpl s pid)) ! f))) \<and>
   (\<forall>f. page_table s pid = Some f \<and> \<not> is_dirty (pages s ! f) \<longrightarrow>
      FlushPageImpl s pid = (True, s))"
proof (cases "page_table s pid")
  case None
  then show ?thesis by (simp add: FlushPageImpl_def)
next
  case (Some f)
  then show ?thesis by (simp add: FlushPageImpl_def prim_defs)
qed

theorem FlushPageImpl_behaviour_witness:
  "page_table dirty_state 1 = Some 0 \<and> is_dirty (pages dirty_state ! 0) \<and>
   0 < length (pages dirty_state) \<and>
   fst (FlushPageImpl dirty_state 1) \<and>
   calls (disk_manager (snd (FlushPageImpl dirty_state 1))) = [CallRead 1, CallWrite 1 marker_page] \<and>
   store (disk_manager (snd (FlushPageImpl dirty_state 1))) 1 = marker_page \<and>
   \<not> is_dirty (pages (snd (FlushPageImpl dirty_state 1)) ! 0) \<and>
   page_table dirty_state 2 = None \<and> \<not> fst (FlushPageImpl dirty_state 2)"
  using FlushPageImpl_behaviour [of dirty_state 1] FlushPageImpl_behaviour [of dirty_state 2]
  by (simp add: dirty_state_def WritePage_def)

section \<open>UnpinPage\<close>

text \<open>
  Claim C3, as amended. For a page id that is not in the page table, \<open>UnpinPageImpl\<close> called
  with the latch free returns \<open>true\<close> for either value of \<open>is_dirty\<close> and leaves the
  state exactly as it was.
\<close>

theorem UnpinPageImpl_not_resident:
  "\<not> latch s \<Longrightarrow> page_table s pid = None \<Longrightarrow> UnpinPageImpl s pid dirty = Some (True, s)"
  by (simp add: UnpinPageImpl_def lock_free unlock_locked)

theorem UnpinPageImpl_not_resident_witness:
  "\<not> latch dirty_state \<and> page_table dirty_state 7 = None \<and>
   UnpinPageImpl dirty_state 7 True = Some (True, dirty_state)"
  using UnpinPageImpl_not_resident [of dirty_state 7 True] by (simp add: dirty_state_def)

theorem UnpinPageImpl_not_resident_counterexample:
  "page_table (BufferPoolManager_new 1 disk0) 7 = None \<and>
   UnpinPageImpl (BufferPoolManager_new 1 disk0) 7 False = Some (True, BufferPoolManager_new 1 disk0) \<and>
   UnpinPageImpl (BufferPoolManager_new 1 disk0) 7 True = Some (True, BufferPoolManager_new 1 disk0)"
  by (simp add: run_defs)




section \<open>Frames on the free list\<close>

text \<open>
  Claim C10. In every reachable state each frame on the free list has pin count 0 and is
  clean. Hence a fetch of a non-resident page that takes its frame from the free list (the
  front of the list) returns that frame with pin count exactly 1, although it only
  increments the count, and so does an allocation that takes its frame from the free list
  (the back of the list).
\<close>

theorem free_frames_unpinned_clean:
  assumes "reachable s"
  shows "(\<forall>f \<in> set (free_list s). pin_count (pages s ! f) = 0 \<and> \<not> is_dirty (pages s ! f)) \<and>
   (\<not> latch s \<and> free_list s \<noteq> [] \<and> page_table s pid = None \<longrightarrow>
      (\<exists>s'. FetchPageImpl s pid = Some (Some (hd (free_list s)), s') \<and>
            pin_count (pages s' ! hd (free_list s)) = 1)) \<and>
   (\<not> latch s \<and> free_list s \<noteq> [] \<longrightarrow>
      (\<exists>p s'. NewPageImpl s = Some (Some (p, last (free_list s)), s') \<and>
              pin_count (pages s' ! last (free_list s)) = 1))"
proof -
  let ?t = "s\<lparr>latch := True\<rparr>"
  from assms have wf: "frames_wf s" by (rule reachable_wf)
  then have free: "\<forall>f \<in> set (free_list s). f < length (pages s) \<and> pin_count (pages s ! f) = 0 \<and> \<not> is_dirty (pages s ! f)"
    by (simp add: frames_wf_def)
  have fetch: "\<exists>s'. FetchPageImpl s pid = Some (Some (hd (free_list s)), s') \<and>
            pin_count (pages s' ! hd (free_list s)) = 1"
    if h: "\<not> latch s" "free_list s \<noteq> []" "page_table s pid = None"
  proof -
    from h(2) free have hd: "hd (free_list s) < length (pages s)" "pin_count (pages s ! hd (free_list s)) = 0"
      by simp_all
    from h have "FetchPageImpl s pid = Some (FetchPage_free pid ?t)"
      by (simp add: FetchPageImpl_def lock_free)
    moreover have "fst (FetchPage_free pid ?t) = Some (hd (free_list s))"
      by (simp add: fetch_free_fields)
    moreover have "pin_count (pages (snd (FetchPage_free pid ?t)) ! hd (free_list s)) = 1"
      using hd by (simp add: fetch_free_pages int32_def)
    ultimately show ?thesis by (metis prod.collapse)
  qed
  have new: "\<exists>p s'. NewPageImpl s = Some (Some (p, last (free_list s)), s') \<and>
              pin_count (pages s' ! last (free_list s)) = 1"
    if h: "\<not> latch s" "free_list s \<noteq> []"
  proof -
    from h(2) free have l: "last (free_list s) < length (pages s)"
      by simp
    from h have "NewPageImpl s = Some (NewPage_free ?t)"
      by (simp add: NewPageImpl_def lock_free)
    moreover have "fst (NewPage_free ?t) = Some (next_page_id (disk_manager s), last (free_list s))"
      by (simp add: new_free_fields)
    moreover have "pin_count (pages (snd (NewPage_free ?t)) ! last (free_list s)) = 1"
      using l by (simp add: new_free_pages)
    ultimately show ?thesis by (metis prod.collapse)
  qed
  from free fetch new show ?thesis by blast
qed

theorem free_frames_unpinned_clean_witness:
  "reachable (BufferPoolManager_new 2 disk0) \<and>
   free_list (BufferPoolManager_new 2 disk0) = [0, 1] \<and>
   \<not> latch (BufferPoolManager_new 2 disk0) \<and>
   page_table (BufferPoolManager_new 2 disk0) 5 = None \<and>
   pin_count (pages (BufferPoolManager_new 2 disk0) ! 0) = 0 \<and>
   \<not> is_dirty (pages (BufferPoolManager_new 2 disk0) ! 0) \<and>
   pin_count (pages (BufferPoolManager_new 2 disk0) ! 1) = 0 \<and>
   \<not> is_dirty (pages (BufferPoolManager_new 2 disk0) ! 1) \<and>
   (\<exists>s'. FetchPageImpl (BufferPoolManager_new 2 disk0) 5 = Some (Some 0, s') \<and>
         pin_count (pages s' ! 0) = 1) \<and>
   (\<exists>p s'. NewPageImpl (BufferPoolManager_new 2 disk0) = Some (Some (p, 1), s') \<and>
         pin_count (pages s' ! 1) = 1)"
proof -
  have fl: "free_list (BufferPoolManager_new 2 disk0) = [0, 1]"
    by (simp add: BufferPoolManager_new_def upt_rec)
  have rest: "\<not> latch (BufferPoolManager_new 2 disk0) \<and> page_table (BufferPoolManager_new 2 disk0) 5 = None"
    by (simp add: BufferPoolManager_new_def)
  from free_frames_unpinned_clean [OF r_new, of 2 disk0 5] fl rest
  show ?thesis by (simp add: r_new)
qed

section \<open>Pool exhaustion\<close>

text \<open>
  Called with the latch free, \<open>FetchPageImpl\<close> for a page that is not resident and
  \<open>NewPageImpl\<close> return, and the result is \<open>nullptr\<close> if and only if the free list is
  empty and the replacer has no victim, which is the case exactly when the replacer tracks
  no frame. Otherwise the handle is the frame taken from the free list (front for a fetch,
  back for an allocation) or, with the free list empty, the replacer's victim. In a
  reachable state with a free or an evictable frame the latch is free, so there both calls
  return a handle.
\<close>

lemma exhaustion_with_latch_free:
  "(\<not> latch s \<and> page_table s pid = None \<longrightarrow>
      (\<exists>res s'. FetchPageImpl s pid = Some (res, s') \<and>
         (res = None \<longleftrightarrow> free_list s = [] \<and> Victim (replacer s) = None) \<and>
         (free_list s \<noteq> [] \<longrightarrow> res = Some (hd (free_list s))) \<and>
         (free_list s = [] \<longrightarrow> res = map_option fst (Victim (replacer s))))) \<and>
   (\<not> latch s \<longrightarrow>
      (\<exists>res s'. NewPageImpl s = Some (res, s') \<and>
         (res = None \<longleftrightarrow> free_list s = [] \<and> Victim (replacer s) = None) \<and>
         (free_list s \<noteq> [] \<longrightarrow> map_option snd res = Some (last (free_list s))) \<and>
         (free_list s = [] \<longrightarrow> map_option snd res = map_option fst (Victim (replacer s))))) \<and>
   (Victim (replacer s) = None \<longleftrightarrow> tracked (replacer s) = {}) \<and>
   (reachable s \<and> (free_list s \<noteq> [] \<or> tracked (replacer s) \<noteq> {}) \<longrightarrow>
      (page_table s pid = None \<longrightarrow> (\<exists>f s'. FetchPageImpl s pid = Some (Some f, s'))) \<and>
      (\<exists>p f s'. NewPageImpl s = Some (Some (p, f), s')))"
proof -
  have v: "Victim (replacer s) = None \<longleftrightarrow> tracked (replacer s) = {}"
    by (simp add: Victim_None tracked_def)
  have live: "(page_table s pid = None \<longrightarrow> (\<exists>f s'. FetchPageImpl s pid = Some (Some f, s'))) \<and>
      (\<exists>p f s'. NewPageImpl s = Some (Some (p, f), s'))"
    if r: "reachable s" and some: "free_list s \<noteq> [] \<or> tracked (replacer s) \<noteq> {}"
  proof -
    from reachable_latch [OF r] some have free: "\<not> latch s"
      by (auto simp: latch_wf_def tracked_def)
    from some v have nn: "\<not> (free_list s = [] \<and> Victim (replacer s) = None)" by blast
    have "\<exists>f s'. FetchPageImpl s pid = Some (Some f, s')" if "page_table s pid = None"
      using FetchPageImpl_miss [OF free that] nn by (metis option.exhaust)
    moreover have "\<exists>p f s'. NewPageImpl s = Some (Some (p, f), s')"
      using NewPageImpl_result [OF free] nn by (metis option.exhaust surj_pair)
    ultimately show ?thesis by blast
  qed
  from v live FetchPageImpl_miss [of s pid] NewPageImpl_result [of s] show ?thesis by blast
qed

text \<open>
  Claim C7 does not hold of the code. In a pool of size one whose frame is pinned, a fetch
  of the non-resident page 5 returns \<open>nullptr\<close> and leaves the latch held. The pool is
  still exhausted (empty free list, no victim), yet a further fetch of a non-resident page
  and a further allocation do not return \<open>nullptr\<close>: they never return.
\<close>

theorem exhausted_call_never_returns:
  "run [New, Fetch 5] (BufferPoolManager_new 1 disk0) =
     Some ([NewHandle (Some (0, 0)), Handle None], pinned_state\<lparr>latch := True\<rparr>) \<and>
   free_list (pinned_state\<lparr>latch := True\<rparr>) = [] \<and>
   Victim (replacer (pinned_state\<lparr>latch := True\<rparr>)) = None \<and>
   page_table (pinned_state\<lparr>latch := True\<rparr>) 6 = None \<and>
   FetchPageImpl (pinned_state\<lparr>latch := True\<rparr>) 6 = None \<and>
   NewPageImpl (pinned_state\<lparr>latch := True\<rparr>) = None \<and>
   replies [New, Fetch 5, Fetch 6] (BufferPoolManager_new 1 disk0) = None \<and>
   replies [New, Fetch 5, New] (BufferPoolManager_new 1 disk0) = None"
  by (simp add: run_defs pinned_state_def replies_def)

section \<open>Eviction in FetchPage\<close>

text \<open>
  Claim C1 does not hold of the code. In \<open>dirty_state\<close> the only frame holds page 1, dirty,
  with the marker content, and is the replacer's victim. \<open>FetchPageImpl\<close> for page 2 evicts
  it and calls \<open>WritePage\<close> with page id 2, the id being fetched: the disk calls are a read
  of 1 (from the set-up), a write of the marker under 2 and a read of 2, and afterwards page
  1 on disk is still all zero while page 2 holds the marker.
\<close>

theorem FetchPage_evict_writes_under_fetched_id:
  "run [Fetch 1, WriteBuffer 0 marker_page, Unpinning 1 True] (BufferPoolManager_new 1 disk0) =
     Some ([Handle (Some 0), Done, Flag True], dirty_state) \<and>
   page_id (pages dirty_state ! 0) = 1 \<and> is_dirty (pages dirty_state ! 0) \<and>
   data (pages dirty_state ! 0) = marker_page \<and>
   free_list dirty_state = [] \<and> Victim (replacer dirty_state) = Some (0, []) \<and>
   FetchPageImpl dirty_state 2 = Some (Some 0, evicted_state) \<and>
   calls (disk_manager evicted_state) = [CallRead 1, CallWrite 2 marker_page, CallRead 2] \<and>
   store (disk_manager evicted_state) 1 = zero_page \<and>
   store (disk_manager evicted_state) 2 = marker_page"
  by (simp add: run_defs dirty_state_def evicted_state_def)

text \<open>
  Claim C4 does not hold of the code. Page 1 is fetched, the marker is written into its
  buffer and it is unpinned as dirty; fetching page 2 evicts it; after unpinning page 2,
  page 1 is fetched again. Every call succeeds, and the buffer returned for page 1 is all
  zero: the marker went to disk under page id 2 and was never written under page id 1.
\<close>

theorem marker_lost_after_fetch_eviction:
  "replies [Fetch 1, WriteBuffer 0 marker_page, Unpinning 1 True, Fetch 2, Unpinning 2 False, Fetch 1]
     (BufferPoolManager_new 1 disk0) =
     Some [Handle (Some 0), Done, Flag True, Handle (Some 0), Flag True, Handle (Some 0)] \<and>
   map_option (map data \<circ> pages)
     (final [Fetch 1, WriteBuffer 0 marker_page, Unpinning 1 True, Fetch 2, Unpinning 2 False, Fetch 1]
        (BufferPoolManager_new 1 disk0)) = Some [zero_page] \<and>
   map_option (map page_id \<circ> pages)
     (final [Fetch 1, WriteBuffer 0 marker_page, Unpinning 1 True, Fetch 2, Unpinning 2 False, Fetch 1]
        (BufferPoolManager_new 1 disk0)) = Some [1] \<and>
   map_option (calls \<circ> disk_manager)
     (final [Fetch 1, WriteBuffer 0 marker_page, Unpinning 1 True, Fetch 2, Unpinning 2 False, Fetch 1]
        (BufferPoolManager_new 1 disk0)) =
     Some [CallRead 1, CallWrite 2 marker_page, CallRead 2, CallRead 1] \<and>
   zero_page \<noteq> marker_page"
  using marker_page_not_zero by (simp add: run_defs replies_def final_def)

section \<open>DeletePage\<close>

text \<open>
  Claim C2 does not hold of the code. Page 0, fetched and still pinned (pin count 1), is
  deleted: \<open>DeletePageImpl\<close> returns \<open>true\<close>, calls the deallocator and puts the frame on
  the free list. Page 5, fetched and unpinned (pin count 0), is not deleted:
  \<open>DeletePageImpl\<close> returns \<open>false\<close> and changes nothing.
\<close>

theorem DeletePage_tests_page_id:
  "replies [Fetch 0, Delete 0] (BufferPoolManager_new 1 disk0) =
     Some [Handle (Some 0), Flag True] \<and>
   map_option (map pin_count \<circ> pages) (final [Fetch 0] (BufferPoolManager_new 1 disk0)) = Some [1] \<and>
   map_option free_list (final [Fetch 0, Delete 0] (BufferPoolManager_new 1 disk0)) = Some [0] \<and>
   map_option (calls \<circ> disk_manager) (final [Fetch 0, Delete 0] (BufferPoolManager_new 1 disk0)) =
     Some [CallRead 0, CallDeallocate 0] \<and>
   replies [Fetch 5, Unpinning 5 False, Delete 5] (BufferPoolManager_new 1 disk0) =
     Some [Handle (Some 0), Flag True, Flag False] \<and>
   map_option (map pin_count \<circ> pages)
     (final [Fetch 5, Unpinning 5 False] (BufferPoolManager_new 1 disk0)) = Some [0] \<and>
   final [Fetch 5, Unpinning 5 False, Delete 5] (BufferPoolManager_new 1 disk0) =
     final [Fetch 5, Unpinning 5 False] (BufferPoolManager_new 1 disk0)"
  by (simp add: run_defs replies_def final_def)

text \<open>
  Claim C5 does not hold of the code. After page 0 has been fetched, unpinned and deleted
  in a pool of size one, frame 0 is on the free list and at the same time tracked by the
  replacer; it still carries page id 0, while the page table is empty.
\<close>

theorem frame_free_and_evictable_after_delete:
  "replies [Fetch 0, Unpinning 0 False, Delete 0] (BufferPoolManager_new 1 disk0) =
     Some [Handle (Some 0), Flag True, Flag True] \<and>
   map_option free_list (final [Fetch 0, Unpinning 0 False, Delete 0] (BufferPoolManager_new 1 disk0)) =
     Some [0] \<and>
   map_option replacer (final [Fetch 0, Unpinning 0 False, Delete 0] (BufferPoolManager_new 1 disk0)) =
     Some [(0, True)] \<and>
   map_option (map page_id \<circ> pages)
     (final [Fetch 0, Unpinning 0 False, Delete 0] (BufferPoolManager_new 1 disk0)) = Some [0] \<and>
   map_option (dom \<circ> page_table)
     (final [Fetch 0, Unpinning 0 False, Delete 0] (BufferPoolManager_new 1 disk0)) = Some {}"
  by (simp add: run_defs replies_def final_def)

section \<open>The latch\<close>

text \<open>
  Claim C6 does not hold of the code. With the only frame pinned, \<open>FetchPageImpl\<close> for a
  non-resident page returns \<open>nullptr\<close> and leaves the latch held, whereas \<open>NewPageImpl\<close> in
  the same state returns \<open>nullptr\<close> with the latch released. The next call that takes the
  latch, here \<open>UnpinPageImpl\<close>, never returns. \<open>FlushPageImpl\<close> runs and returns although
  the latch is held: it never takes it.
\<close>

theorem FetchPage_exhausted_keeps_latch:
  "run [New] (BufferPoolManager_new 1 disk0) = Some ([NewHandle (Some (0, 0))], pinned_state) \<and>
   FetchPageImpl pinned_state 5 = Some (None, pinned_state\<lparr>latch := True\<rparr>) \<and>
   NewPageImpl pinned_state = Some (None, pinned_state) \<and>
   UnpinPageImpl (pinned_state\<lparr>latch := True\<rparr>) 0 False = None \<and>
   run [New, Fetch 5, Unpinning 0 False] (BufferPoolManager_new 1 disk0) = None \<and>
   fst (FlushPageImpl (pinned_state\<lparr>latch := True\<rparr>) 0)"
  by (simp add: run_defs pinned_state_def)

end
